theory Spec2Isabelle
  imports Main "HOL-Library.Monad_Syntax"
begin

section \<open>The page: fields, closure variables, and the calls made on them\<close>

text \<open>
  The script \<^verbatim>\<open>static/scripts/S3/s3.inv_recv_multisite.js\<close> touches four elements of
  the form. Three are bound to variables when the document is ready
  (\<^verbatim>\<open>reqField = $('#link_defaultreq')\<close>, \<^verbatim>\<open>fromField = $('#inv_recv_from_site_id')\<close>,
  \<^verbatim>\<open>toField = $('#inv_recv_site_id')\<close>); the fourth is looked up in place as
  \<^verbatim>\<open>$('#inv_recv_type')\<close>.
\<close>

datatype element = reqField | fromField | toField | inv_recv_type

text \<open>
  A site of the response is the two-element array \<^verbatim>\<open>[id, label]\<close>: \<^verbatim>\<open>site[0]\<close> is the
  first component, \<^verbatim>\<open>site[1]\<close> the second. The response \<^verbatim>\<open>data\<close> is the two-element
  array of the from-sites (\<^verbatim>\<open>data[0]\<close>) and the to-sites (\<^verbatim>\<open>data[1]\<close>). A form field
  stores every value as text, so ids are strings here and the number \<^verbatim>\<open>11\<close> that the
  script assigns is the string \<open>''11''\<close>.
\<close>

type_synonym site = "string \<times> string"

type_synonym response = "site list \<times> site list"

text \<open>\<^verbatim>\<open>new Option(text, value)\<close>: the label first, the value second.\<close>

datatype dom_option = Option (opt_text: string) (opt_value: string)

text \<open>
  Modelled from the spec: the form fields are not part of the script. Following the
  spec's data model, a field holds an ordered list of options and a current value. The
  current value is the one last given to the field by \<^verbatim>\<open>val\<close>; which option a browser
  shows for a list that was refilled without a \<^verbatim>\<open>val\<close> is the form's own default
  behaviour and is not described here.
\<close>

record field =
  options :: "dom_option list"
  fld_value :: string

text \<open>The calls that the script makes on its collaborators, in the order it makes them.\<close>

datatype call =
    Html element
  | Append element dom_option
  | Val element string
  | Change element
  | GetJSONS3 string

text \<open>
  The state that the script reads and writes: the four fields, the closure variable
  \<^verbatim>\<open>site\<close> (declared without a value, so \<open>None\<close> until a loop assigns it, and shared by
  every run of the callback), and the history of calls. The other closure variables
  (\<^verbatim>\<open>ajaxURL\<close>, \<^verbatim>\<open>fromSites\<close>, \<^verbatim>\<open>toSites\<close>, \<^verbatim>\<open>req_id\<close> and the two lengths) are
  assigned immediately before their only uses and appear as \<open>let\<close> bindings.
\<close>

record page =
  elems :: "element \<Rightarrow> field"
  site :: "site option"
  calls :: "call list"

text \<open>
  Modelled from the spec: the jQuery methods that the script calls on the fields are not
  part of the script. \<^verbatim>\<open>html('')\<close> removes the options of a field, \<^verbatim>\<open>append\<close> adds one
  option at the end, \<^verbatim>\<open>val(v)\<close> makes \<open>v\<close> the current value, and \<^verbatim>\<open>change()\<close>
  notifies the listeners of the field, which are outside the script: the notification
  is recorded in the history and changes no field. Every method records its call.
\<close>

definition html :: "element \<Rightarrow> page \<Rightarrow> page" where
  \<comment> \<open>\<^verbatim>\<open>e.html('')\<close>\<close>
  "html e p = p\<lparr>elems := (elems p)(e := (elems p e)\<lparr>options := []\<rparr>),
                calls := calls p @ [Html e]\<rparr>"

definition append_option :: "element \<Rightarrow> dom_option \<Rightarrow> page \<Rightarrow> page" where
  \<comment> \<open>\<^verbatim>\<open>e.append(opt)\<close>\<close>
  "append_option e opt p =
     p\<lparr>elems := (elems p)(e := (elems p e)\<lparr>options := options (elems p e) @ [opt]\<rparr>),
       calls := calls p @ [Append e opt]\<rparr>"

definition val :: "element \<Rightarrow> string \<Rightarrow> page \<Rightarrow> page" where
  \<comment> \<open>\<^verbatim>\<open>e.val(v)\<close>\<close>
  "val e v p = p\<lparr>elems := (elems p)(e := (elems p e)\<lparr>fld_value := v\<rparr>),
                 calls := calls p @ [Val e v]\<rparr>"

definition change :: "element \<Rightarrow> page \<Rightarrow> page" where
  \<comment> \<open>\<^verbatim>\<open>e.change()\<close>\<close>
  "change e p = p\<lparr>calls := calls p @ [Change e]\<rparr>"

definition getJSONS3 :: "string \<Rightarrow> page \<Rightarrow> page" where
  \<comment> \<open>\<^verbatim>\<open>$.getJSONS3(url, callback)\<close>: the request is issued and the caller goes on\<close>
  "getJSONS3 url p = p\<lparr>calls := calls p @ [GetJSONS3 url]\<rparr>"

section \<open>The success callback of \<^verbatim>\<open>lookupSites\<close>\<close>

text \<open>
  The body of both \<^verbatim>\<open>for\<close> loops: \<^verbatim>\<open>site = sites[i]; e.append(new Option(site[1], site[0]))\<close>.
\<close>

definition option_of :: "site \<Rightarrow> dom_option" where
  "option_of s = Option (snd s) (fst s)"

definition add_site :: "element \<Rightarrow> site \<Rightarrow> page \<Rightarrow> page" where
  "add_site e s p = append_option e (option_of s) (p\<lparr>site := Some s\<rparr>)"

text \<open>
  \<^verbatim>\<open>e.val(site[0])\<close> after a loop: it reads the variable \<^verbatim>\<open>site\<close>, not the list.
  Indexing an undefined \<^verbatim>\<open>site\<close> throws; the result is then \<open>None\<close>.
\<close>

definition val_site0 :: "element \<Rightarrow> page \<Rightarrow> page option" where
  "val_site0 e p = (case site p of None \<Rightarrow> None | Some s \<Rightarrow> Some (val e (fst s) p))"

definition success :: "response \<Rightarrow> page \<Rightarrow> page option" where
  "success data p0 = do {
     let p1 = html fromField p0;
     let p2 = html toField p1;
     let fromSites = fst data;
     let fromSitesLength = length fromSites;
     p5 \<leftarrow> (if fromSitesLength \<noteq> 0 then do {
              let p3 = fold (add_site fromField) fromSites p2;
              p4 \<leftarrow> (if fromSitesLength = 1 then val_site0 fromField p3 else Some p3);
              Some (change inv_recv_type (val inv_recv_type ''11'' p4))
            } else Some p2);
     let toSites = snd data;
     let toSitesLength = length toSites;
     if toSitesLength = 0 then Some p5
     else do {
       let p6 = fold (add_site toField) toSites p5;
       if toSitesLength = 1 then val_site0 toField p6 else Some p6
     }
   }"

section \<open>Issuing the request\<close>

text \<open>
  \<^verbatim>\<open>S3.Ap\<close>, the application's base path, is configured outside the script and is a
  parameter here. \<^verbatim>\<open>S3.Ap.concat(s)\<close> is the base path followed by \<open>s\<close>.
\<close>

definition lookupSites :: "string \<Rightarrow> string \<Rightarrow> page \<Rightarrow> page" where
  "lookupSites Ap req_id p =
     (let ajaxURL = Ap @ (''/inv/req/recv_sites.json?req_id='' @ req_id)
      in getJSONS3 ajaxURL p)"

text \<open>The handler registered by \<^verbatim>\<open>reqField.change(function() {...})\<close>.\<close>

definition reqField_change :: "string \<Rightarrow> page \<Rightarrow> page" where
  "reqField_change Ap p =
     (let req_id = fld_value (elems p reqField)
      in lookupSites Ap req_id p)"

text \<open>
  Modelled from the spec: \<^verbatim>\<open>$.getJSONS3\<close> is defined elsewhere in the application. The
  spec gives it two outcomes: the request succeeds with a two-element body and the
  callback passed by \<^verbatim>\<open>lookupSites\<close> runs on it, or the request fails and, no error
  callback having been passed, nothing of the script runs.
\<close>

datatype outcome = Succeeded response | Failed

fun getJSONS3_done :: "outcome \<Rightarrow> page \<Rightarrow> page option" where
  "getJSONS3_done (Succeeded data) p = success data p"
| "getJSONS3_done Failed p = Some p"

text \<open>One change of the request selector followed by the outcome of its request.\<close>

definition change_then :: "string \<Rightarrow> outcome \<Rightarrow> page \<Rightarrow> page option" where
  "change_then Ap out p = getJSONS3_done out (reqField_change Ap p)"

section \<open>Reading the history; two concrete pages\<close>

text \<open>The field that a call writes to, if any.\<close>

fun written :: "call \<Rightarrow> element option" where
  "written (Html e) = Some e"
| "written (Append e opt) = Some e"
| "written (Val e v) = Some e"
| "written (Change e) = Some e"
| "written (GetJSONS3 url) = None"

text \<open>
  Two pages used as concrete inputs: a form that an earlier response has filled, and a
  form on which nothing has been selected yet.
\<close>

definition filled_page :: page where
  "filled_page =
     \<lparr>elems = (\<lambda>e. case e of
          reqField \<Rightarrow> \<lparr>options = [Option ''REQ-5'' ''5''], fld_value = ''5''\<rparr>
        | fromField \<Rightarrow> \<lparr>options = [Option ''Old depot'' ''8''], fld_value = ''8''\<rparr>
        | toField \<Rightarrow> \<lparr>options = [Option ''Old store'' ''9''], fld_value = ''9''\<rparr>
        | inv_recv_type \<Rightarrow> \<lparr>options = [Option ''Donation'' ''32''], fld_value = ''32''\<rparr>),
      site = Some (''9'', ''Old store''),
      calls = []\<rparr>"

definition blank_page :: page where
  "blank_page = \<lparr>elems = (\<lambda>e. \<lparr>options = [], fld_value = []\<rparr>), site = None, calls = []\<rparr>"

section \<open>The loops\<close>

text \<open>
  A loop over \<open>ss\<close> appends one option per site to the field, in list order, leaves
  the other fields alone, and leaves \<^verbatim>\<open>site\<close> at the last site it visited.
\<close>

lemma fold_add_site:
  "fold (add_site e) ss p =
     p\<lparr>elems := (elems p)(e := (elems p e)\<lparr>options := options (elems p e) @ map option_of ss\<rparr>),
       site := (if ss = [] then site p else Some (last ss)),
       calls := calls p @ map (\<lambda>s. Append e (option_of s)) ss\<rparr>"
proof (induction ss arbitrary: p)
  case Nil
  show ?case by simp
next
  case (Cons s ss)
  have "fold (add_site e) (s # ss) p = fold (add_site e) ss (add_site e s p)"
    by simp
  also have "\<dots> =
     p\<lparr>elems := (elems p)(e := (elems p e)\<lparr>options := options (elems p e) @ map option_of (s # ss)\<rparr>),
       site := (if s # ss = [] then site p else Some (last (s # ss))),
       calls := calls p @ map (\<lambda>s. Append e (option_of s)) (s # ss)\<rparr>"
    unfolding Cons.IH by (simp add: add_site_def append_option_def)
  finally show ?case .
qed

section \<open>The callback in closed form\<close>

text \<open>
  The callback never throws on a two-element response of site lists: each
  \<^verbatim>\<open>val(site[0])\<close> is reached only after a loop that ran at least once. Its whole
  effect on the page, whatever the page was before:
\<close>

lemma success_closed:
  "success data p =
     Some (p\<lparr>elems := (elems p)
             (fromField := \<lparr>options = map option_of (fst data),
                            fld_value = (if length (fst data) = 1 then fst (last (fst data))
                                         else fld_value (elems p fromField))\<rparr>,
              toField := \<lparr>options = map option_of (snd data),
                          fld_value = (if length (snd data) = 1 then fst (last (snd data))
                                       else fld_value (elems p toField))\<rparr>,
              inv_recv_type := (if fst data = [] then elems p inv_recv_type
                                else (elems p inv_recv_type)\<lparr>fld_value := ''11''\<rparr>)),
            site := (if snd data \<noteq> [] then Some (last (snd data))
                     else if fst data \<noteq> [] then Some (last (fst data)) else site p),
            calls := calls p @ [Html fromField, Html toField] @
               map (\<lambda>s. Append fromField (option_of s)) (fst data) @
               (if length (fst data) = 1 then [Val fromField (fst (last (fst data)))] else []) @
               (if fst data = [] then [] else [Val inv_recv_type ''11'', Change inv_recv_type]) @
               map (\<lambda>s. Append toField (option_of s)) (snd data) @
               (if length (snd data) = 1 then [Val toField (fst (last (snd data)))] else [])\<rparr>)"
  by (simp add: success_def Let_def fold_add_site val_site0_def html_def val_def change_def
      fun_eq_iff)

lemma filled_page_value:
  "fld_value (elems filled_page reqField) = ''5''"
  "fld_value (elems filled_page fromField) = ''8''"
  "fld_value (elems filled_page toField) = ''9''"
  "fld_value (elems filled_page inv_recv_type) = ''32''"
  by (simp_all add: filled_page_def)

section \<open>Single sites are selected\<close>

text \<open>
  Claim C1. When the response holds exactly one from-site and exactly one to-site, the
  callback returns, and afterwards the value of the from-field is the id of the from-site,
  the value of the to-field is the id of the to-site, and the value of the shipment-type
  field is 11.
\<close>

theorem single_sites_selected:
  assumes "fst data = [f]" and "snd data = [t]"
  shows "\<exists>p'. success data p = Some p' \<and>
           fld_value (elems p' fromField) = fst f \<and>
           fld_value (elems p' toField) = fst t \<and>
           fld_value (elems p' inv_recv_type) = ''11''"
  using assms by (simp add: success_closed)

theorem single_sites_selected_witness:
  "fst ([(''1'', ''Warehouse A'')], [(''2'', ''Warehouse B'')]) = [(''1'', ''Warehouse A'')] \<and>
   snd ([(''1'', ''Warehouse A'')], [(''2'', ''Warehouse B'')]) = [(''2'', ''Warehouse B'')] \<and>
   (\<exists>p'. success ([(''1'', ''Warehouse A'')], [(''2'', ''Warehouse B'')]) filled_page = Some p' \<and>
      fld_value (elems p' fromField) = ''1'' \<and>
      fld_value (elems p' toField) = ''2'' \<and>
      fld_value (elems p' inv_recv_type) = ''11'')"
  using single_sites_selected
    [of "([(''1'', ''Warehouse A'')], [(''2'', ''Warehouse B'')])"
        "(''1'', ''Warehouse A'')" "(''2'', ''Warehouse B'')" filled_page]
  by simp


section \<open>The shipment type follows the from-sites\<close>

text \<open>
  Claim C2. When the response holds at least one from-site, however many, the callback
  sets the value of the shipment-type field to 11 and fires the change handling of that
  field right after. The calls that follow are those of the to-sites only, so this
  happens also when the to-list is empty: nothing at all follows then.
\<close>

theorem from_sites_set_type:
  assumes "fst data \<noteq> []"
  shows "\<exists>p' before after. success data p = Some p' \<and>
           fld_value (elems p' inv_recv_type) = ''11'' \<and>
           calls p' = calls p @ before @ [Val inv_recv_type ''11'', Change inv_recv_type] @ after \<and>
           (snd data = [] \<longrightarrow> after = [])"
proof -
  let ?before = "[Html fromField, Html toField] @
      map (\<lambda>s. Append fromField (option_of s)) (fst data) @
      (if length (fst data) = 1 then [Val fromField (fst (last (fst data)))] else [])"
  let ?after = "map (\<lambda>s. Append toField (option_of s)) (snd data) @
      (if length (snd data) = 1 then [Val toField (fst (last (snd data)))] else [])"
  obtain p' where p': "success data p = Some p'"
    by (simp add: success_closed)
  have "fld_value (elems p' inv_recv_type) = ''11''"
    using p' assms by (auto simp add: success_closed)
  moreover have "calls p' =
      calls p @ ?before @ [Val inv_recv_type ''11'', Change inv_recv_type] @ ?after"
    using p' assms by (auto simp add: success_closed)
  moreover have "snd data = [] \<longrightarrow> ?after = []"
    by simp
  ultimately show ?thesis
    using p' by blast
qed

theorem from_sites_set_type_witness:
  "fst ([(''1'', ''Depot A''), (''4'', ''Depot D'')], []) \<noteq> [] \<and>
   (\<exists>p' before after.
      success ([(''1'', ''Depot A''), (''4'', ''Depot D'')], []) filled_page = Some p' \<and>
      fld_value (elems p' inv_recv_type) = ''11'' \<and>
      calls p' = calls filled_page @
        before @ [Val inv_recv_type ''11'', Change inv_recv_type] @ after \<and>
      after = [])"
  using from_sites_set_type [of "([(''1'', ''Depot A''), (''4'', ''Depot D'')], [])" filled_page]
  by simp

section \<open>No destination, no options\<close>

text \<open>
  Claim C3. When the to-list of the response is empty, the to-field has no options after
  the callback, whatever the from-list holds and whatever options the field had before.
\<close>

theorem no_to_sites_no_options:
  assumes "snd data = []"
  shows "\<exists>p'. success data p = Some p' \<and> options (elems p' toField) = []"
  using assms by (simp add: success_closed)

theorem no_to_sites_no_options_witness:
  "snd ([(''1'', ''Depot A'')], []) = [] \<and>
   (\<exists>p'. success ([(''1'', ''Depot A'')], []) filled_page = Some p' \<and>
      options (elems p' toField) = [])"
  using no_to_sites_no_options [of "([(''1'', ''Depot A'')], [])" filled_page]
  by simp

section \<open>Several from-sites\<close>

text \<open>
  Claim C4. When the response holds \<open>n > 1\<close> from-sites, the from-field has exactly
  \<open>n\<close> options after the callback, one per pair and in the order of the list, the
  first component of a pair being the value of its option and the second its label; and
  among the calls of the callback there is no \<^verbatim>\<open>val\<close> on the from-field.
\<close>

theorem several_from_sites_listed:
  assumes "1 < length (fst data)"
  shows "\<exists>p' cs. success data p = Some p' \<and> calls p' = calls p @ cs \<and>
           options (elems p' fromField) = map (\<lambda>(i, l). Option l i) (fst data) \<and>
           length (options (elems p' fromField)) = length (fst data) \<and>
           (\<forall>v. Val fromField v \<notin> set cs)"
proof -
  have "option_of = (\<lambda>(i, l). Option l i)"
    by (simp add: fun_eq_iff option_of_def)
  then show ?thesis
    using assms by (auto simp add: success_closed)
qed

theorem several_from_sites_listed_witness:
  "1 < length (fst ([(''1'', ''Depot A''), (''4'', ''Depot D'')], [(''2'', ''Store B'')])) \<and>
   (\<exists>p' cs. success ([(''1'', ''Depot A''), (''4'', ''Depot D'')], [(''2'', ''Store B'')]) filled_page
          = Some p' \<and> calls p' = calls filled_page @ cs \<and>
      options (elems p' fromField) = [Option ''Depot A'' ''1'', Option ''Depot D'' ''4''] \<and>
      length (options (elems p' fromField)) = 2 \<and>
      (\<forall>v. Val fromField v \<notin> set cs))"
  using several_from_sites_listed
    [of "([(''1'', ''Depot A''), (''4'', ''Depot D'')], [(''2'', ''Store B'')])" filled_page]
  by (simp add: numeral_2_eq_2)

section \<open>Options are replaced before anything is added\<close>

text \<open>
  Claim C5. For every response and every state of the fields before it, the first two
  calls of the callback clear the from-field and the to-field; every option appended and
  every value assigned comes after them, and nothing is cleared again. The options of the
  two fields are in the end exactly those of the response: none of the options that the
  fields held before remains among them.
\<close>

theorem options_replaced_first:
  "\<exists>p' rest. success data p = Some p' \<and>
     calls p' = calls p @ Html fromField # Html toField # rest \<and>
     (\<forall>e. Html e \<notin> set rest) \<and>
     options (elems p' fromField) = map option_of (fst data) \<and>
     options (elems p' toField) = map option_of (snd data)"
  by (auto simp add: success_closed)

theorem options_replaced_first_witness:
  "\<exists>p' rest.
     success ([(''1'', ''Depot A'')], [(''2'', ''Store B''), (''3'', ''Store C'')]) filled_page
       = Some p' \<and>
     calls p' = calls filled_page @ Html fromField # Html toField # rest \<and>
     (\<forall>e. Html e \<notin> set rest) \<and>
     options (elems p' fromField) = [Option ''Depot A'' ''1''] \<and>
     options (elems p' toField) = [Option ''Store B'' ''2'', Option ''Store C'' ''3'']"
  using options_replaced_first
    [of "([(''1'', ''Depot A'')], [(''2'', ''Store B''), (''3'', ''Store C'')])" filled_page]
  by (simp add: option_of_def)

section \<open>Processing a response twice\<close>

text \<open>
  Claim C6. For every response and every state of the fields before it, the callback run
  twice on the response leaves the from-field, the to-field and the shipment-type field
  as the first run left them.
\<close>

theorem success_idempotent:
  "\<exists>p1 p2. success data p = Some p1 \<and> success data p1 = Some p2 \<and>
     elems p2 fromField = elems p1 fromField \<and>
     elems p2 toField = elems p1 toField \<and>
     elems p2 inv_recv_type = elems p1 inv_recv_type"
  by (simp add: success_closed)

section \<open>The request\<close>

text \<open>
  Claim C7. Whatever the value of the request selector, a change of it makes exactly one
  call of \<^verbatim>\<open>$.getJSONS3\<close>, on the base path followed by
  \<^verbatim>\<open>/inv/req/recv_sites.json?req_id=\<close> and by that value. Nothing guards the call: for
  the empty value the address ends with \<^verbatim>\<open>req_id=\<close>.
\<close>

theorem change_issues_one_request:
  "calls (reqField_change Ap p) =
     calls p @ [GetJSONS3 (Ap @ ''/inv/req/recv_sites.json?req_id='' @ fld_value (elems p reqField))] \<and>
   (fld_value (elems p reqField) = [] \<longrightarrow>
      calls (reqField_change Ap p) = calls p @ [GetJSONS3 (Ap @ ''/inv/req/recv_sites.json?req_id='')])"
  by (simp add: reqField_change_def lookupSites_def getJSONS3_def)

theorem change_issues_one_request_witness:
  "calls (reqField_change ''/eden'' blank_page) =
     calls blank_page @ [GetJSONS3 ''/eden/inv/req/recv_sites.json?req_id='']"
  using change_issues_one_request [of "''/eden''" blank_page]
  by (simp add: blank_page_def)

text \<open>
  Claim C8. The script passes \<^verbatim>\<open>$.getJSONS3\<close> an address and the success callback, and
  nothing for a failure. When the request fails, so that the callback does not run, the
  from-field, the to-field and the shipment-type field are as they were before the
  change; the only call made is the request itself.
\<close>

theorem failure_leaves_fields:
  "\<exists>p'. change_then Ap Failed p = Some p' \<and>
     elems p' fromField = elems p fromField \<and>
     elems p' toField = elems p toField \<and>
     elems p' inv_recv_type = elems p inv_recv_type \<and>
     calls p' = calls p @
       [GetJSONS3 (Ap @ ''/inv/req/recv_sites.json?req_id='' @ fld_value (elems p reqField))]"
  by (simp add: change_then_def reqField_change_def lookupSites_def getJSONS3_def)

section \<open>What the callback leaves alone\<close>

text \<open>
  Claim C9. When the from-list of the response is empty, the callback leaves the
  shipment-type field as it was and makes no call on it (neither \<^verbatim>\<open>val\<close> nor
  \<^verbatim>\<open>change\<close>), and makes no \<^verbatim>\<open>val\<close> on the from-field. The to-list is processed as
  usual: its options are appended in order, and a single to-site is selected.
\<close>

theorem no_from_sites_type_untouched:
  assumes "fst data = []"
  shows "\<exists>p' cs. success data p = Some p' \<and> calls p' = calls p @ cs \<and>
           elems p' inv_recv_type = elems p inv_recv_type \<and>
           (\<forall>c\<in>set cs. written c \<noteq> Some inv_recv_type) \<and>
           (\<forall>v. Val fromField v \<notin> set cs) \<and>
           options (elems p' toField) = map option_of (snd data) \<and>
           (\<forall>t. snd data = [t] \<longrightarrow> fld_value (elems p' toField) = fst t)"
  using assms by (auto simp add: success_closed)

theorem no_from_sites_type_untouched_witness:
  "fst ([], [(''2'', ''Store B'')]) = [] \<and>
   (\<exists>p' cs. success ([], [(''2'', ''Store B'')]) filled_page = Some p' \<and>
      calls p' = calls filled_page @ cs \<and>
      elems p' inv_recv_type = elems filled_page inv_recv_type \<and>
      fld_value (elems p' inv_recv_type) = ''32'' \<and>
      (\<forall>c\<in>set cs. written c \<noteq> Some inv_recv_type) \<and>
      (\<forall>v. Val fromField v \<notin> set cs) \<and>
      options (elems p' toField) = [Option ''Store B'' ''2''] \<and>
      fld_value (elems p' toField) = ''2'')"
  using no_from_sites_type_untouched [of "([], [(''2'', ''Store B'')])" filled_page]
  by (auto simp add: filled_page_value option_of_def)

text \<open>
  Claim C10. For every response, the request selector has the same value and the same
  options after the callback as before it: every call of the callback is on the
  from-field, the to-field or the shipment-type field.
\<close>

theorem request_selector_untouched:
  "\<exists>p' cs. success data p = Some p' \<and> calls p' = calls p @ cs \<and>
     elems p' reqField = elems p reqField \<and>
     (\<forall>c\<in>set cs. written c \<in> {Some fromField, Some toField, Some inv_recv_type})"
  by (auto simp add: success_closed)

theorem request_selector_untouched_witness:
  "\<exists>p' cs. success ([(''1'', ''Depot A'')], [(''2'', ''Store B'')]) filled_page = Some p' \<and>
     calls p' = calls filled_page @ cs \<and>
     elems p' reqField = elems filled_page reqField \<and>
     fld_value (elems p' reqField) = ''5'' \<and>
     (\<forall>c\<in>set cs. written c \<in> {Some fromField, Some toField, Some inv_recv_type})"
  using request_selector_untouched [of "([(''1'', ''Depot A'')], [(''2'', ''Store B'')])" filled_page]
  by (auto simp add: filled_page_value)

end
